theory Spec2Isabelle
  imports Main
begin

section \<open>The writing agent of kimi-writer.py\<close>

text \<open>
  The development embeds the agent loop of \<^verbatim>\<open>kimi-writer.py\<close>: the accumulation of a
  streamed model response into one assistant message, the conversion of that message for
  the history, the dispatch of tool calls, and the iteration loop with its handlers.
  Console output (\<^verbatim>\<open>print\<close>) is left out: it changes no variable of the program.
\<close>

subsection \<open>Constants\<close>

definition MAX_ITERATIONS :: nat where
  "MAX_ITERATIONS = 300"

definition TOKEN_LIMIT :: int where
  "TOKEN_LIMIT = 200000"

definition COMPRESSION_THRESHOLD :: int where
  "COMPRESSION_THRESHOLD = 180000"

definition BACKUP_INTERVAL :: nat where
  "BACKUP_INTERVAL = 50"

subsection \<open>Streamed events\<close>

text \<open>
  A Python test \<^verbatim>\<open>if x:\<close> on an optional string is false for \<^verbatim>\<open>None\<close> and for the
  empty string. An attribute that is missing (\<^verbatim>\<open>hasattr\<close> false) and one that is
  \<^verbatim>\<open>None\<close> are both \<open>None\<close> here wherever the source tests
  \<^verbatim>\<open>hasattr(o, a) and o.a\<close>.
\<close>

fun truthy :: "string option \<Rightarrow> bool" where
  "truthy None = False"
| "truthy (Some s) = (s \<noteq> [])"

text \<open>
  The \<^verbatim>\<open>function\<close> attribute of a tool-call delta. The source guards it with
  \<^verbatim>\<open>hasattr(tc_delta, "function")\<close> only, so three cases differ: the attribute is
  missing (\<open>FnMissing\<close>), it is present and \<^verbatim>\<open>None\<close> (\<open>FnNone\<close>: reading
  \<^verbatim>\<open>.name\<close> of it raises AttributeError), or it carries an optional name and an
  optional fragment of the argument string.
\<close>

datatype fn_attr = FnMissing | FnNone | Fn "string option" "string option"

record tc_delta =
  tcd_index :: int
  tcd_id :: "string option"
  tcd_function :: fn_attr

record delta =
  d_role :: "string option"
  d_reasoning_content :: "string option"
  d_content :: "string option"
  d_tool_calls :: "tc_delta list"

record choice =
  c_delta :: delta
  c_finish_reason :: "string option"

text \<open>A chunk is the list \<^verbatim>\<open>chunk.choices\<close>; only its first element is read.\<close>

type_synonym chunk = "choice list"

datatype py_error = IndexError | AttributeError

subsection \<open>The accumulator\<close>

text \<open>
  One entry of \<^verbatim>\<open>tool_calls_data\<close>: the dictionary
  \<^verbatim>\<open>{"id": None, "type": "function", "function": {"name": "", "arguments": ""},
  "chars_received": 0}\<close>. The key \<^verbatim>\<open>"type"\<close> is constant and is left out.
\<close>

record slot =
  slot_id :: "string option"
  slot_name :: string
  slot_arguments :: string
  chars_received :: nat

definition empty_slot :: slot where
  "empty_slot = \<lparr>slot_id = None, slot_name = [], slot_arguments = [], chars_received = 0\<rparr>"

text \<open>
  \<^verbatim>\<open>while len(tool_calls_data) <= tc_delta.index: tool_calls_data.append({...})\<close>.
  The loop appends \<open>index + 1 - len\<close> fresh entries when that number is positive and
  none otherwise (in particular none for a negative index).
\<close>

definition ensure_slots :: "slot list \<Rightarrow> int \<Rightarrow> slot list" where
  "ensure_slots data i = data @ replicate (nat (i + 1 - int (length data))) empty_slot"

text \<open>
  \<^verbatim>\<open>tool_calls_data[tc_delta.index]\<close>: a negative index counts from the end, an index
  out of range raises IndexError. The result is the position read.
\<close>

definition py_index :: "'a list \<Rightarrow> int \<Rightarrow> py_error + nat" where
  "py_index xs i =
     (if 0 \<le> i \<and> i < int (length xs) then Inr (nat i)
      else if i < 0 \<and> - int (length xs) \<le> i then Inr (nat (int (length xs) + i))
      else Inl IndexError)"

text \<open>Lines 367 to 374, on the entry \<open>tc\<close> that the delta addresses.\<close>

definition set_id :: "string option \<Rightarrow> slot \<Rightarrow> slot" where
  "set_id i tc = (if truthy i then tc\<lparr>slot_id := i\<rparr> else tc)"

definition set_name :: "string option \<Rightarrow> slot \<Rightarrow> slot" where
  "set_name n tc = (if truthy n then tc\<lparr>slot_name := the n\<rparr> else tc)"

definition add_arguments :: "string option \<Rightarrow> slot \<Rightarrow> slot" where
  "add_arguments a tc =
     (if truthy a
      then tc\<lparr>slot_arguments := slot_arguments tc @ the a,
              chars_received := chars_received tc + length (the a)\<rparr>
      else tc)"

definition update_slot :: "tc_delta \<Rightarrow> slot \<Rightarrow> py_error + slot" where
  "update_slot d tc =
     (case tcd_function d of
        FnNone \<Rightarrow> Inl AttributeError
      | FnMissing \<Rightarrow> Inr (set_id (tcd_id d) tc)
      | Fn n a \<Rightarrow> Inr (add_arguments a (set_name n (set_id (tcd_id d) tc))))"

text \<open>The body of \<^verbatim>\<open>for tc_delta in delta.tool_calls\<close>, lines 345 to 380.\<close>

definition on_tc_delta :: "slot list \<Rightarrow> tc_delta \<Rightarrow> py_error + slot list" where
  "on_tc_delta data d =
     (let data1 = ensure_slots data (tcd_index d) in
      case py_index data1 (tcd_index d) of
        Inl e \<Rightarrow> Inl e
      | Inr j \<Rightarrow>
          (case update_slot d (data1 ! j) of
             Inl e \<Rightarrow> Inl e
           | Inr tc \<Rightarrow> Inr (data1[j := tc])))"

fun on_tc_deltas :: "slot list \<Rightarrow> tc_delta list \<Rightarrow> py_error + slot list" where
  "on_tc_deltas data [] = Inr data"
| "on_tc_deltas data (d # ds) =
     (case on_tc_delta data d of
        Inl e \<Rightarrow> Inl e
      | Inr data1 \<Rightarrow> on_tc_deltas data1 ds)"

text \<open>The local variables of the accumulation, lines 293 to 297.\<close>

record acc =
  reasoning_content :: string
  content_text :: string
  tool_calls_data :: "slot list"
  role :: "string option"
  finish_reason :: "string option"

definition initial_acc :: acc where
  "initial_acc = \<lparr>reasoning_content = [], content_text = [], tool_calls_data = [],
     role = None, finish_reason = None\<rparr>"

definition append_opt :: "string \<Rightarrow> string option \<Rightarrow> string" where
  "append_opt s f = (if truthy f then s @ the f else s)"

text \<open>The body of \<^verbatim>\<open>for chunk in stream\<close>, lines 307 to 380.\<close>

definition on_chunk :: "acc \<Rightarrow> chunk \<Rightarrow> py_error + acc" where
  "on_chunk a ch =
     (case ch of
        [] \<Rightarrow> Inr a
      | c # _ \<Rightarrow>
          (let dl = c_delta c;
               a1 = a\<lparr>finish_reason := c_finish_reason c\<rparr>;
               a2 = (if truthy (d_role dl) then a1\<lparr>role := d_role dl\<rparr> else a1);
               a3 = a2\<lparr>reasoning_content := append_opt (reasoning_content a2) (d_reasoning_content dl)\<rparr>;
               a4 = a3\<lparr>content_text := append_opt (content_text a3) (d_content dl)\<rparr>
           in case on_tc_deltas (tool_calls_data a4) (d_tool_calls dl) of
                Inl e \<Rightarrow> Inl e
              | Inr data \<Rightarrow> Inr (a4\<lparr>tool_calls_data := data\<rparr>)))"

fun on_chunks :: "acc \<Rightarrow> chunk list \<Rightarrow> py_error + acc" where
  "on_chunks a [] = Inr a"
| "on_chunks a (ch # chs) =
     (case on_chunk a ch of
        Inl e \<Rightarrow> Inl e
      | Inr a1 \<Rightarrow> on_chunks a1 chs)"

definition accumulate :: "chunk list \<Rightarrow> py_error + acc" where
  "accumulate chs = on_chunks initial_acc chs"

subsection \<open>The reconstructed message and the history\<close>

text \<open>A tool call of the reconstructed message: \<^verbatim>\<open>id\<close>, \<^verbatim>\<open>function.name\<close>,
  \<^verbatim>\<open>function.arguments\<close> (\<^verbatim>\<open>type\<close> is the constant \<^verbatim>\<open>'function'\<close>).\<close>

record tool_call =
  tc_id :: string
  tc_name :: string
  tc_arguments :: string

text \<open>The attributes that \<^verbatim>\<open>ReconstructedMessage.__init__\<close> sets, lines 392 to 415.\<close>

record reconstructed_message =
  rm_role :: string
  rm_content :: "string option"
  rm_reasoning_content :: "string option"
  rm_tool_calls :: "tool_call list option"

definition to_tool_call :: "slot \<Rightarrow> tool_call" where
  "to_tool_call tc =
     \<lparr>tc_id = the (slot_id tc), tc_name = slot_name tc, tc_arguments = slot_arguments tc\<rparr>"

definition ReconstructedMessage :: "acc \<Rightarrow> reconstructed_message" where
  "ReconstructedMessage a =
     \<lparr>rm_role = (if truthy (role a) then the (role a) else ''assistant''),
      rm_content = (if content_text a \<noteq> [] then Some (content_text a) else None),
      rm_reasoning_content =
        (if reasoning_content a \<noteq> [] then Some (reasoning_content a) else None),
      rm_tool_calls =
        (if tool_calls_data a \<noteq> []
         then Some (map to_tool_call (filter (\<lambda>tc. truthy (slot_id tc)) (tool_calls_data a)))
         else None)\<rparr>"

text \<open>
  An entry of \<^verbatim>\<open>messages\<close>: a dictionary with the key \<^verbatim>\<open>role\<close> and the optional
  keys \<^verbatim>\<open>content\<close>, \<^verbatim>\<open>reasoning_content\<close>, \<^verbatim>\<open>tool_calls\<close>,
  \<^verbatim>\<open>tool_call_id\<close> and \<^verbatim>\<open>name\<close>; a key that is absent is \<open>None\<close>.
\<close>

record message =
  m_role :: string
  m_content :: "string option"
  m_reasoning_content :: "string option"
  m_tool_calls :: "tool_call list option"
  m_tool_call_id :: "string option"
  m_name :: "string option"

text \<open>
  \<^verbatim>\<open>convert_message_for_api\<close>, lines 119 to 168: a dictionary is returned as it is; of
  an object the truthy attributes are copied. A reconstructed message has neither
  \<^verbatim>\<open>tool_call_id\<close> nor \<^verbatim>\<open>name\<close>.
\<close>

datatype api_message = DictMessage message | ObjectMessage reconstructed_message

fun convert_message_for_api :: "api_message \<Rightarrow> message" where
  "convert_message_for_api (DictMessage m) = m"
| "convert_message_for_api (ObjectMessage msg) =
     \<lparr>m_role = rm_role msg,
      m_content = (if truthy (rm_content msg) then rm_content msg else None),
      m_reasoning_content =
        (if truthy (rm_reasoning_content msg) then rm_reasoning_content msg else None),
      m_tool_calls =
        (case rm_tool_calls msg of
           None \<Rightarrow> None
         | Some tcs \<Rightarrow> (if tcs \<noteq> [] then Some tcs else None)),
      m_tool_call_id = None,
      m_name = None\<rparr>"

text \<open>\<^verbatim>\<open>not message.tool_calls\<close>, line 424: true for \<^verbatim>\<open>None\<close> and for the empty list.\<close>

definition no_tool_calls :: "reconstructed_message \<Rightarrow> bool" where
  "no_tool_calls msg = (case rm_tool_calls msg of None \<Rightarrow> True | Some tcs \<Rightarrow> tcs = [])"

definition calls_of :: "reconstructed_message \<Rightarrow> tool_call list" where
  "calls_of msg = (case rm_tool_calls msg of None \<Rightarrow> [] | Some tcs \<Rightarrow> tcs)"

subsection \<open>What a stream delivers to a slot\<close>

text \<open>
  The tool-call deltas of a stream in arrival order, and for a slot index the values the
  stream delivers to it. These are the terms in which the properties of the accumulator
  are stated; the accumulator above does not use them.
\<close>

definition chunk_tc_deltas :: "chunk \<Rightarrow> tc_delta list" where
  "chunk_tc_deltas ch = (case ch of [] \<Rightarrow> [] | c # _ \<Rightarrow> d_tool_calls (c_delta c))"

definition stream_tc_deltas :: "chunk list \<Rightarrow> tc_delta list" where
  "stream_tc_deltas chs = concat (map chunk_tc_deltas chs)"

definition for_slot :: "tc_delta list \<Rightarrow> nat \<Rightarrow> tc_delta list" where
  "for_slot ds j = filter (\<lambda>d. tcd_index d = int j) ds"

fun delta_name :: "tc_delta \<Rightarrow> string option" where
  "delta_name d = (case tcd_function d of Fn n a \<Rightarrow> n | _ \<Rightarrow> None)"

fun delta_fragment :: "tc_delta \<Rightarrow> string" where
  "delta_fragment d =
     (case tcd_function d of Fn n a \<Rightarrow> (if truthy a then the a else []) | _ \<Rightarrow> [])"

definition fragments :: "tc_delta list \<Rightarrow> nat \<Rightarrow> string" where
  "fragments ds j = concat (map delta_fragment (for_slot ds j))"

text \<open>The first and the last non-empty value of a list of optional strings.\<close>

definition first_value :: "string option list \<Rightarrow> string option" where
  "first_value xs = (case filter truthy xs of [] \<Rightarrow> None | x # _ \<Rightarrow> x)"

definition last_value :: "string option list \<Rightarrow> string option" where
  "last_value xs = (case rev (filter truthy xs) of [] \<Rightarrow> None | x # _ \<Rightarrow> x)"

definition id_assigned :: "tc_delta list \<Rightarrow> nat \<Rightarrow> bool" where
  "id_assigned ds j = list_ex (\<lambda>d. truthy (tcd_id d)) (for_slot ds j)"

text \<open>The number of slots a stream makes: one more than its greatest index.\<close>

definition slot_count :: "tc_delta list \<Rightarrow> nat" where
  "slot_count ds = foldr (\<lambda>d n. max (nat (tcd_index d + 1)) n) ds 0"

text \<open>
  A delta is well formed when its index is not negative and its \<^verbatim>\<open>function\<close> is not
  \<^verbatim>\<open>None\<close>; the accumulation raises on no such delta.
\<close>

definition well_formed :: "tc_delta \<Rightarrow> bool" where
  "well_formed d = (0 \<le> tcd_index d \<and> tcd_function d \<noteq> FnNone)"

text \<open>
  The tool call that the deltas of a stream deliver to slot \<open>j\<close>: the last non-empty id
  and name and all fragments of the argument string; and the calls of the slots that got
  an id, in the order of their indices.
\<close>

definition delivered_call :: "tc_delta list \<Rightarrow> nat \<Rightarrow> tool_call" where
  "delivered_call ds j =
     \<lparr>tc_id = the (last_value (map tcd_id (for_slot ds j))),
      tc_name = (case last_value (map delta_name (for_slot ds j)) of None \<Rightarrow> [] | Some n \<Rightarrow> n),
      tc_arguments = fragments ds j\<rparr>"

definition surviving_calls :: "tc_delta list \<Rightarrow> tool_call list" where
  "surviving_calls ds = map (delivered_call ds) (filter (id_assigned ds) [0..<slot_count ds])"

text \<open>
  For the proofs: the entry at a position of the array, an empty one beyond its end, and
  the effect of a well-formed delta on the entry it addresses.
\<close>

definition get_slot :: "slot list \<Rightarrow> nat \<Rightarrow> slot" where
  "get_slot data j = (if j < length data then data ! j else empty_slot)"

definition upd :: "tc_delta \<Rightarrow> slot \<Rightarrow> slot" where
  "upd d tc =
     add_arguments (Some (delta_fragment d)) (set_name (delta_name d) (set_id (tcd_id d) tc))"

subsection \<open>The world outside the program\<close>

text \<open>
  A call that leaves the program (the token estimator, the compressor, the model, a tool)
  returns a value, raises an exception that \<^verbatim>\<open>except Exception\<close> catches (with its
  description), or is cut by a \<^verbatim>\<open>KeyboardInterrupt\<close>, which \<^verbatim>\<open>except Exception\<close>
  does not catch. The interrupt is modelled at these calls, where the program waits.
\<close>

datatype 'a outcome = Returns 'a | Raises string | KeyboardInterrupt

text \<open>The dictionary that \<^verbatim>\<open>compress_context_impl\<close> returns; every key may be absent.\<close>

record compression_result =
  compressed_messages :: "message list option"
  cr_message :: "string option"
  tokens_saved :: "int option"
  summary_file :: "string option"

text \<open>A value that \<^verbatim>\<open>json.loads\<close> returns; a number is kept as its literal.\<close>

datatype json =
    JObject "(string \<times> json) list"
  | JArray "json list"
  | JString string
  | JNumber string
  | JBool bool
  | JNull

text \<open>
  How \<^verbatim>\<open>json.loads\<close> ends: it returns a value, it raises \<^verbatim>\<open>json.JSONDecodeError\<close>
  (the string is not a JSON document), or it raises another exception, with its
  description: \<^verbatim>\<open>RecursionError\<close> on a document nested too deep, \<^verbatim>\<open>ValueError\<close> on
  an integer literal beyond the digit limit of the interpreter.
\<close>

datatype loaded = Loaded json | JSONDecodeError | LoadError string

text \<open>
  The modules \<^verbatim>\<open>utils\<close> and \<^verbatim>\<open>tools.compression\<close>, the client and the tools are not
  part of the file; they are parameters, and each call threads a state \<open>'w\<close> of the world
  (files, network, clock). \<open>create\<close> stands for \<^verbatim>\<open>client.chat.completions.create\<close>
  together with the iteration over the stream: the chunks it delivers, and how the stream
  ends (normally, or with an exception or an interrupt raised by \<^verbatim>\<open>create\<close> itself or
  between two chunks). \<open>json_loads\<close> stands for \<^verbatim>\<open>json.loads\<close>.
  A tool takes the keyword arguments \<^verbatim>\<open>**args\<close> and returns \<^verbatim>\<open>str(result)\<close>.
\<close>

record 'w env =
  estimate_token_count :: "message list \<Rightarrow> 'w \<Rightarrow> int outcome \<times> 'w"
  compress_context_impl :: "message list \<Rightarrow> nat \<Rightarrow> 'w \<Rightarrow> compression_result outcome \<times> 'w"
  create :: "message list \<Rightarrow> 'w \<Rightarrow> (chunk list \<times> unit outcome) \<times> 'w"
  json_loads :: "string \<Rightarrow> loaded"
  tool_map :: "string \<Rightarrow> ((string \<times> json) list \<Rightarrow> 'w \<Rightarrow> string outcome \<times> 'w) option"

subsection \<open>The token check and the backup\<close>

text \<open>
  Lines 237 to 262. The result is the token count and the history the iteration goes on
  with, or \<open>None\<close> when a \<^verbatim>\<open>KeyboardInterrupt\<close> leaves the \<^verbatim>\<open>try\<close>. The handler of
  line 260 catches what the estimator and the compressor raise, and the \<^verbatim>\<open>KeyError\<close>
  of \<^verbatim>\<open>compression_result['message']\<close> in line 253, which comes after the assignment
  to \<^verbatim>\<open>messages\<close> in line 252.
\<close>

definition check_tokens ::
  "'w env \<Rightarrow> message list \<Rightarrow> 'w \<Rightarrow> (int \<times> message list) option \<times> 'w" where
  "check_tokens env messages w =
     (case estimate_token_count env messages w of
        (KeyboardInterrupt, w1) \<Rightarrow> (None, w1)
      | (Raises e, w1) \<Rightarrow> (Some (0, messages), w1)
      | (Returns token_count, w1) \<Rightarrow>
          (if token_count \<ge> COMPRESSION_THRESHOLD
           then
             (case compress_context_impl env messages 10 w1 of
                (KeyboardInterrupt, w2) \<Rightarrow> (None, w2)
              | (Raises e, w2) \<Rightarrow> (Some (0, messages), w2)
              | (Returns compression_result, w2) \<Rightarrow>
                  (case compressed_messages compression_result of
                     None \<Rightarrow> (Some (token_count, messages), w2)
                   | Some messages1 \<Rightarrow>
                       (case cr_message compression_result of
                          None \<Rightarrow> (Some (0, messages1), w2)
                        | Some txt \<Rightarrow>
                            (case estimate_token_count env messages1 w2 of
                               (KeyboardInterrupt, w3) \<Rightarrow> (None, w3)
                             | (Raises e, w3) \<Rightarrow> (Some (0, messages1), w3)
                             | (Returns token_count1, w3) \<Rightarrow>
                                 (Some (token_count1, messages1), w3)))))
           else (Some (token_count, messages), w1)))"

text \<open>
  Lines 265 to 277. The result of the compressor is only printed. \<open>False\<close> stands for a
  \<^verbatim>\<open>KeyboardInterrupt\<close> that leaves the \<^verbatim>\<open>try\<close>.
\<close>

definition auto_backup :: "'w env \<Rightarrow> nat \<Rightarrow> message list \<Rightarrow> 'w \<Rightarrow> bool \<times> 'w" where
  "auto_backup env iteration messages w =
     (if iteration mod BACKUP_INTERVAL = 0
      then
        (case compress_context_impl env messages (length messages) w of
           (KeyboardInterrupt, w1) \<Rightarrow> (False, w1)
         | (Raises e, w1) \<Rightarrow> (True, w1)
         | (Returns compression_result, w1) \<Rightarrow> (True, w1))
      else (True, w))"

subsection \<open>Tool dispatch\<close>

text \<open>
  Lines 439 to 442: \<^verbatim>\<open>except json.JSONDecodeError\<close> replaces the arguments by the empty
  object; any other exception of \<^verbatim>\<open>json.loads\<close> leaves the \<^verbatim>\<open>try\<close> (\<open>Inl\<close>, with
  its description).
\<close>

definition parse_args :: "'w env \<Rightarrow> string \<Rightarrow> string + json" where
  "parse_args env args_str =
     (case json_loads env args_str of
        Loaded args \<Rightarrow> Inr args
      | JSONDecodeError \<Rightarrow> Inr (JObject [])
      | LoadError e \<Rightarrow> Inl e)"

text \<open>Line 451: \<^verbatim>\<open>f"Error: Unknown tool '{func_name}'"\<close>.\<close>

definition unknown_tool :: "string \<Rightarrow> string" where
  "unknown_tool func_name = ''Error: Unknown tool '' @ [CHR 0x27] @ func_name @ [CHR 0x27]"

text \<open>Lines 478 to 483.\<close>

definition tool_message :: "tool_call \<Rightarrow> string \<Rightarrow> message" where
  "tool_message tool_call result =
     \<lparr>m_role = ''tool'', m_content = Some result, m_reasoning_content = None,
      m_tool_calls = None, m_tool_call_id = Some (tc_id tool_call),
      m_name = Some (tc_name tool_call)\<rparr>"

text \<open>
  Lines 436 to 475: the result of one tool call and the history after it (the tool
  \<^verbatim>\<open>compress_context\<close> may replace the history). The arguments are parsed first, before
  the name is looked up. \<^verbatim>\<open>tool_func(**args)\<close> raises \<^verbatim>\<open>TypeError\<close> when \<open>args\<close> is
  not an object.
\<close>

definition call_tool ::
  "'w env \<Rightarrow> message list \<Rightarrow> tool_call \<Rightarrow> 'w \<Rightarrow> (string \<times> message list) outcome \<times> 'w" where
  "call_tool env messages tool_call w =
     (let func_name = tc_name tool_call in
      case parse_args env (tc_arguments tool_call) of
        Inl e \<Rightarrow> (Raises e, w)
      | Inr args \<Rightarrow>
          (case tool_map env func_name of
             None \<Rightarrow> (Returns (unknown_tool func_name, messages), w)
           | Some tool_func \<Rightarrow>
               (if func_name = ''compress_context''
                then
                  (case compress_context_impl env messages 10 w of
                     (KeyboardInterrupt, w1) \<Rightarrow> (KeyboardInterrupt, w1)
                   | (Raises e, w1) \<Rightarrow> (Raises e, w1)
                   | (Returns result_data, w1) \<Rightarrow>
                       (Returns
                          (case cr_message result_data of
                             None \<Rightarrow> ''Compression completed''
                           | Some txt \<Rightarrow> txt,
                           case compressed_messages result_data of
                             None \<Rightarrow> messages
                           | Some messages1 \<Rightarrow> messages1), w1))
                else
                  (case args of
                     JObject kwargs \<Rightarrow>
                       (case tool_func kwargs w of
                          (KeyboardInterrupt, w1) \<Rightarrow> (KeyboardInterrupt, w1)
                        | (Raises e, w1) \<Rightarrow> (Raises e, w1)
                        | (Returns result, w1) \<Rightarrow> (Returns (result, messages), w1))
                   | _ \<Rightarrow> (Raises ''TypeError'', w)))))"

text \<open>The body of \<^verbatim>\<open>for tool_call in message.tool_calls\<close>, lines 436 to 484.\<close>

definition dispatch ::
  "'w env \<Rightarrow> message list \<Rightarrow> tool_call \<Rightarrow> 'w \<Rightarrow> message list outcome \<times> 'w" where
  "dispatch env messages tool_call w =
     (case call_tool env messages tool_call w of
        (KeyboardInterrupt, w1) \<Rightarrow> (KeyboardInterrupt, w1)
      | (Raises e, w1) \<Rightarrow> (Raises e, w1)
      | (Returns (result, messages1), w1) \<Rightarrow>
          (Returns (messages1 @ [tool_message tool_call result]), w1))"

text \<open>
  The loop over the tool calls. An exception or an interrupt ends it; the history is then
  the one the loop had reached.
\<close>

fun dispatch_all ::
  "'w env \<Rightarrow> message list \<Rightarrow> tool_call list \<Rightarrow> 'w \<Rightarrow> unit outcome \<times> message list \<times> 'w" where
  "dispatch_all env messages [] w = (Returns (), messages, w)"
| "dispatch_all env messages (tool_call # rest) w =
     (case dispatch env messages tool_call w of
        (KeyboardInterrupt, w1) \<Rightarrow> (KeyboardInterrupt, messages, w1)
      | (Raises e, w1) \<Rightarrow> (Raises e, messages, w1)
      | (Returns messages1, w1) \<Rightarrow> dispatch_all env messages1 rest w1)"

subsection \<open>One iteration\<close>

text \<open>How the \<^verbatim>\<open>try\<close> block of lines 280 to 484 ends.\<close>

datatype try_end = Finished | Broke | Raised string | Interrupted

fun error_text :: "py_error \<Rightarrow> string" where
  "error_text IndexError = ''list index out of range''"
| "error_text AttributeError =
     [CHR 0x27] @ ''NoneType'' @ [CHR 0x27] @ '' object has no attribute ''
     @ [CHR 0x27] @ ''name'' @ [CHR 0x27]"

text \<open>
  Lines 280 to 484. The accumulated values are local: when the stream ends with an
  exception or an interrupt, or the accumulation raises, \<^verbatim>\<open>messages\<close> is as before.
\<close>

definition try_block :: "'w env \<Rightarrow> message list \<Rightarrow> 'w \<Rightarrow> try_end \<times> message list \<times> 'w" where
  "try_block env messages w =
     (case create env messages w of
        ((chunks, ended), w1) \<Rightarrow>
          (case accumulate chunks of
             Inl e \<Rightarrow> (Raised (error_text e), messages, w1)
           | Inr a \<Rightarrow>
               (case ended of
                  KeyboardInterrupt \<Rightarrow> (Interrupted, messages, w1)
                | Raises e \<Rightarrow> (Raised e, messages, w1)
                | Returns u \<Rightarrow>
                    (let message = ReconstructedMessage a;
                         messages1 = messages @ [convert_message_for_api (ObjectMessage message)]
                     in if no_tool_calls message then (Broke, messages1, w1)
                        else
                          (case dispatch_all env messages1 (calls_of message) w1 of
                             (KeyboardInterrupt, messages2, w2) \<Rightarrow> (Interrupted, messages2, w2)
                           | (Raises e, messages2, w2) \<Rightarrow> (Raised e, messages2, w2)
                           | (Returns u, messages2, w2) \<Rightarrow> (Finished, messages2, w2))))))"

text \<open>
  How the body of the \<^verbatim>\<open>for\<close> loop ends: it reaches its end or a \<^verbatim>\<open>continue\<close>
  (\<open>Proceed\<close>), it reaches the \<^verbatim>\<open>break\<close> of line 430, it calls \<^verbatim>\<open>sys.exit\<close>, or a
  \<^verbatim>\<open>KeyboardInterrupt\<close> that no handler catches leaves \<^verbatim>\<open>main\<close>.
\<close>

datatype control = Proceed | Break | SysExit int | Propagated

text \<open>
  Lines 486 to 502: the handler of \<^verbatim>\<open>KeyboardInterrupt\<close>. The bare \<^verbatim>\<open>except\<close>
  swallows whatever the compressor raises.
\<close>

definition on_interrupt :: "'w env \<Rightarrow> message list \<Rightarrow> 'w \<Rightarrow> control \<times> message list \<times> 'w" where
  "on_interrupt env messages w =
     (case compress_context_impl env messages (length messages) w of
        (r, w1) \<Rightarrow> (SysExit 0, messages, w1))"

text \<open>Lines 264 to 507: the backup, the \<^verbatim>\<open>try\<close> block and its two handlers.\<close>

definition model_phase ::
  "'w env \<Rightarrow> nat \<Rightarrow> message list \<Rightarrow> 'w \<Rightarrow> control \<times> message list \<times> 'w" where
  "model_phase env iteration messages w =
     (case auto_backup env iteration messages w of
        (False, w1) \<Rightarrow> (Propagated, messages, w1)
      | (True, w1) \<Rightarrow>
          (case try_block env messages w1 of
             (Finished, messages1, w2) \<Rightarrow> (Proceed, messages1, w2)
           | (Broke, messages1, w2) \<Rightarrow> (Break, messages1, w2)
           | (Raised e, messages1, w2) \<Rightarrow> (Proceed, messages1, w2)
           | (Interrupted, messages1, w2) \<Rightarrow> on_interrupt env messages1 w2))"

text \<open>The body of the loop, lines 232 to 507.\<close>

definition iteration_body ::
  "'w env \<Rightarrow> nat \<Rightarrow> message list \<Rightarrow> 'w \<Rightarrow> control \<times> message list \<times> 'w" where
  "iteration_body env iteration messages w =
     (case check_tokens env messages w of
        (None, w1) \<Rightarrow> (Propagated, messages, w1)
      | (Some (token_count, messages1), w1) \<Rightarrow> model_phase env iteration messages1 w1)"

subsection \<open>The loop and what follows it\<close>

text \<open>
  \<^verbatim>\<open>for iteration in range(1, MAX_ITERATIONS + 1)\<close> over the list of the values still to
  come; the third argument is the value of \<^verbatim>\<open>iteration\<close> so far. The result carries
  the value \<^verbatim>\<open>iteration\<close> has when the loop is left.
\<close>

fun for_loop ::
  "'w env \<Rightarrow> nat list \<Rightarrow> nat \<Rightarrow> message list \<Rightarrow> 'w \<Rightarrow> control \<times> nat \<times> message list \<times> 'w" where
  "for_loop env [] iteration messages w = (Proceed, iteration, messages, w)"
| "for_loop env (i # rest) iteration messages w =
     (case iteration_body env i messages w of
        (Proceed, messages1, w1) \<Rightarrow> for_loop env rest i messages1 w1
      | (Break, messages1, w1) \<Rightarrow> (Break, i, messages1, w1)
      | (SysExit n, messages1, w1) \<Rightarrow> (SysExit n, i, messages1, w1)
      | (Propagated, messages1, w1) \<Rightarrow> (Propagated, i, messages1, w1))"

text \<open>
  How the process ends: \<^verbatim>\<open>main\<close> returns (exit status 0), \<^verbatim>\<open>sys.exit\<close> was called, or
  an uncaught \<^verbatim>\<open>KeyboardInterrupt\<close> ends it with a traceback.
\<close>

datatype ending = Returned | Exited int | Killed

text \<open>Lines 509 to 529, after the loop.\<close>

definition after_loop ::
  "'w env \<Rightarrow> control \<times> nat \<times> message list \<times> 'w \<Rightarrow> ending \<times> message list \<times> 'w" where
  "after_loop env r =
     (case r of
        (SysExit n, iteration, messages, w) \<Rightarrow> (Exited n, messages, w)
      | (Propagated, iteration, messages, w) \<Rightarrow> (Killed, messages, w)
      | (c, iteration, messages, w) \<Rightarrow>
          (if iteration \<ge> MAX_ITERATIONS
           then
             (case compress_context_impl env messages (length messages) w of
                (KeyboardInterrupt, w1) \<Rightarrow> (Killed, messages, w1)
              | (Raises e, w1) \<Rightarrow> (Returned, messages, w1)
              | (Returns compression_result, w1) \<Rightarrow> (Returned, messages, w1))
           else (Returned, messages, w)))"

text \<open>Lines 200 to 215; the system prompt comes from \<^verbatim>\<open>utils\<close>.\<close>

definition plain_message :: "string \<Rightarrow> string \<Rightarrow> message" where
  "plain_message r c =
     \<lparr>m_role = r, m_content = Some c, m_reasoning_content = None, m_tool_calls = None,
      m_tool_call_id = None, m_name = None\<rparr>"

definition initial_messages :: "string \<Rightarrow> string \<Rightarrow> bool \<Rightarrow> message list" where
  "initial_messages system_prompt user_prompt is_recovery =
     [plain_message ''system'' system_prompt,
      plain_message ''user''
        (if is_recovery
         then ''[RECOVERED CONTEXT]'' @ [CHR 0x0A, CHR 0x0A] @ user_prompt @ [CHR 0x0A, CHR 0x0A]
              @ ''[END RECOVERED CONTEXT]'' @ [CHR 0x0A, CHR 0x0A]
              @ ''Please continue the work from where we left off.''
         else user_prompt)]"

text \<open>
  \<^verbatim>\<open>main\<close> from line 199 on, for a credential that is set and the prompt that
  \<^verbatim>\<open>get_user_input\<close> returned.
\<close>

definition main ::
  "'w env \<Rightarrow> string \<Rightarrow> string \<Rightarrow> bool \<Rightarrow> 'w \<Rightarrow> ending \<times> message list \<times> 'w" where
  "main env system_prompt user_prompt is_recovery w =
     after_loop env
       (for_loop env [1..<MAX_ITERATIONS + 1] 0
          (initial_messages system_prompt user_prompt is_recovery) w)"

subsection \<open>Example streams\<close>

definition tool_chunk :: "tc_delta list \<Rightarrow> chunk" where
  "tool_chunk tcs =
     [\<lparr>c_delta = \<lparr>d_role = None, d_reasoning_content = None, d_content = None,
                   d_tool_calls = tcs\<rparr>,
       c_finish_reason = None\<rparr>]"

definition content_chunk :: "string \<Rightarrow> chunk" where
  "content_chunk txt =
     [\<lparr>c_delta = \<lparr>d_role = Some ''assistant'', d_reasoning_content = None,
                   d_content = Some txt, d_tool_calls = []\<rparr>,
       c_finish_reason = None\<rparr>]"

text \<open>
  Three slots: slot 0 gets an id and two fragments, slot 1 gets a fragment and no id,
  slot 2 gets an id and a name; the third chunk has no choices.
\<close>

definition example_stream :: "chunk list" where
  "example_stream =
     [tool_chunk [\<lparr>tcd_index = 0, tcd_id = Some ''call_1'',
                   tcd_function = Fn (Some ''write_file'') (Some ''{x:'')\<rparr>],
      tool_chunk [\<lparr>tcd_index = 1, tcd_id = None, tcd_function = Fn None (Some ''lost'')\<rparr>],
      [],
      tool_chunk [\<lparr>tcd_index = 0, tcd_id = None, tcd_function = Fn None (Some ''1}'')\<rparr>,
                  \<lparr>tcd_index = 2, tcd_id = Some ''call_2'',
                   tcd_function = Fn (Some ''read_file'') None\<rparr>]]"

text \<open>Two deltas for slot 0, each with an id and a name of its own.\<close>

definition renaming_deltas :: "tc_delta list" where
  "renaming_deltas =
     [\<lparr>tcd_index = 0, tcd_id = Some ''call_a'',
       tcd_function = Fn (Some ''write_file'') (Some ''{'')\<rparr>,
      \<lparr>tcd_index = 0, tcd_id = Some ''call_b'',
       tcd_function = Fn (Some ''read_file'') (Some ''}'')\<rparr>]"

subsection \<open>Example environments\<close>

text \<open>
  A world that counts the model calls and records the \<^verbatim>\<open>keep_recent\<close> argument of every
  call of the compressor, the latest first.
\<close>

record world =
  model_calls :: nat
  compressions :: "nat list"

definition initial_world :: world where
  "initial_world = \<lparr>model_calls = 0, compressions = []\<rparr>"

definition low_estimate :: "message list \<Rightarrow> world \<Rightarrow> int outcome \<times> world" where
  "low_estimate messages w = (Returns 1000, w)"

definition interrupted_estimate :: "message list \<Rightarrow> world \<Rightarrow> int outcome \<times> world" where
  "interrupted_estimate messages w = (KeyboardInterrupt, w)"

text \<open>An estimator that answers for a history of two or more entries and fails below.\<close>

definition unsteady_estimate :: "message list \<Rightarrow> world \<Rightarrow> int outcome \<times> world" where
  "unsteady_estimate messages w =
     (if 2 \<le> length messages then (Returns 190000, w) else (Raises ''timed out'', w))"

text \<open>A compressor that only saves a summary, one that is interrupted, and one that also
  shrinks the history.\<close>

definition saving_compress ::
  "message list \<Rightarrow> nat \<Rightarrow> world \<Rightarrow> compression_result outcome \<times> world" where
  "saving_compress messages keep_recent w =
     (Returns \<lparr>compressed_messages = None, cr_message = Some ''saved'',
               tokens_saved = Some 0, summary_file = Some ''summary.md''\<rparr>,
      w\<lparr>compressions := keep_recent # compressions w\<rparr>)"

definition interrupted_compress ::
  "message list \<Rightarrow> nat \<Rightarrow> world \<Rightarrow> compression_result outcome \<times> world" where
  "interrupted_compress messages keep_recent w = (KeyboardInterrupt, w)"

definition shrinking_compress ::
  "message list \<Rightarrow> nat \<Rightarrow> world \<Rightarrow> compression_result outcome \<times> world" where
  "shrinking_compress messages keep_recent w =
     (Returns \<lparr>compressed_messages = Some [plain_message ''user'' ''summary''],
               cr_message = Some ''compressed'', tokens_saved = Some 100000,
               summary_file = Some ''summary.md''\<rparr>,
      w\<lparr>compressions := keep_recent # compressions w\<rparr>)"

text \<open>
  An argument string of 2000 opening brackets, on which \<^verbatim>\<open>json.loads\<close> raises
  \<^verbatim>\<open>RecursionError\<close>; and a \<^verbatim>\<open>json.loads\<close> that parses \<^verbatim>\<open>{}\<close>, raises
  \<^verbatim>\<open>RecursionError\<close> on that string and \<^verbatim>\<open>JSONDecodeError\<close> on every other one.
\<close>

definition deep_arguments :: string where
  "deep_arguments = replicate 2000 (CHR ''['')"

definition example_loads :: "string \<Rightarrow> loaded" where
  "example_loads s =
     (if s = ''{}'' then Loaded (JObject [])
      else if s = deep_arguments then LoadError ''maximum recursion depth exceeded''
      else JSONDecodeError)"

text \<open>A registry of three tools; \<open>flaky\<close> raises.\<close>

definition example_tools ::
  "string \<Rightarrow> ((string \<times> json) list \<Rightarrow> world \<Rightarrow> string outcome \<times> world) option" where
  "example_tools func_name =
     (if func_name = ''write_file'' then Some (\<lambda>kwargs w. (Returns ''File written'', w))
      else if func_name = ''flaky'' then Some (\<lambda>kwargs w. (Raises ''disk full'', w))
      else if func_name = ''compress_context'' then Some (\<lambda>kwargs w. (Returns [], w))
      else None)"

definition example_env ::
  "(message list \<Rightarrow> world \<Rightarrow> int outcome \<times> world) \<Rightarrow>
   (message list \<Rightarrow> nat \<Rightarrow> world \<Rightarrow> compression_result outcome \<times> world) \<Rightarrow>
   (message list \<Rightarrow> world \<Rightarrow> (chunk list \<times> unit outcome) \<times> world) \<Rightarrow> world env" where
  "example_env est cmp crt =
     \<lparr>estimate_token_count = est, compress_context_impl = cmp, create = crt,
      json_loads = example_loads, tool_map = example_tools\<rparr>"

definition called :: "world \<Rightarrow> world" where
  "called w = w\<lparr>model_calls := Suc (model_calls w)\<rparr>"

definition haiku_stream :: "message list \<Rightarrow> world \<Rightarrow> (chunk list \<times> unit outcome) \<times> world" where
  "haiku_stream messages w = (([content_chunk ''An old silent pond''], Returns ()), called w)"

definition failing_stream :: "message list \<Rightarrow> world \<Rightarrow> (chunk list \<times> unit outcome) \<times> world" where
  "failing_stream messages w = (([], Raises ''Connection error''), called w)"

definition interrupted_stream ::
  "message list \<Rightarrow> world \<Rightarrow> (chunk list \<times> unit outcome) \<times> world" where
  "interrupted_stream messages w = (([content_chunk ''An old''], KeyboardInterrupt), called w)"

definition tool_stream ::
  "string \<Rightarrow> string \<Rightarrow> message list \<Rightarrow> world \<Rightarrow> (chunk list \<times> unit outcome) \<times> world" where
  "tool_stream func_name args_str messages w =
     (([tool_chunk [\<lparr>tcd_index = 0, tcd_id = Some ''call_1'',
                     tcd_function = Fn (Some func_name) (Some args_str)\<rparr>]], Returns ()),
      called w)"

text \<open>The model call fails 299 times and then answers without a tool call.\<close>

definition late_haiku_stream ::
  "message list \<Rightarrow> world \<Rightarrow> (chunk list \<times> unit outcome) \<times> world" where
  "late_haiku_stream messages w =
     (if model_calls w < 299 then failing_stream messages w else haiku_stream messages w)"

section \<open>Properties of the accumulator\<close>

subsection \<open>One delta, and a list of deltas\<close>

lemma update_slot_upd: "tcd_function d \<noteq> FnNone \<Longrightarrow> update_slot d tc = Inr (upd d tc)"
  by (cases "tcd_function d") (auto simp: update_slot_def upd_def add_arguments_def set_name_def)

lemma length_ensure_slots: "length (ensure_slots data i) = max (length data) (nat (i + 1))"
  by (simp add: ensure_slots_def)

lemma nth_ensure_slots: "j < length (ensure_slots data i) \<Longrightarrow> ensure_slots data i ! j = get_slot data j"
  by (auto simp: ensure_slots_def get_slot_def nth_append)

lemma on_tc_delta_wf:
  assumes "well_formed d"
  shows "on_tc_delta data d =
     Inr ((ensure_slots data (tcd_index d))[nat (tcd_index d) := upd d (get_slot data (nat (tcd_index d)))])"
proof -
  let ?i = "tcd_index d"
  from assms have i: "0 \<le> ?i" and f: "tcd_function d \<noteq> FnNone"
    by (simp_all add: well_formed_def)
  have len: "nat ?i < length (ensure_slots data ?i)"
    using i by (simp add: length_ensure_slots)
  have idx: "py_index (ensure_slots data ?i) ?i = Inr (nat ?i)"
    using i len by (simp add: py_index_def)
  show ?thesis
    by (simp add: on_tc_delta_def Let_def idx update_slot_upd [OF f] nth_ensure_slots [OF len])
qed

lemma get_slot_after:
  assumes "0 \<le> i"
  shows "get_slot ((ensure_slots data i)[nat i := s]) j =
     (if j = nat i then s else get_slot data j)"
  using assms
  by (auto simp: get_slot_def length_ensure_slots nth_list_update ensure_slots_def nth_append)

lemma for_slot_Cons:
  "for_slot (d # ds) j = (if tcd_index d = int j then d # for_slot ds j else for_slot ds j)"
  by (simp add: for_slot_def)

lemma slot_count_Cons: "slot_count (d # ds) = max (nat (tcd_index d + 1)) (slot_count ds)"
  by (simp add: slot_count_def)

lemma on_tc_deltas_wf:
  assumes "list_all well_formed ds"
  shows "on_tc_deltas data ds =
     Inr (map (\<lambda>j. foldl (\<lambda>s d. upd d s) (get_slot data j) (for_slot ds j))
            [0..<max (length data) (slot_count ds)])"
  using assms
proof (induction ds arbitrary: data)
  case Nil
  have "map (get_slot data) [0..<length data] = data"
    by (rule nth_equalityI) (simp_all add: get_slot_def)
  then show ?case
    by (simp add: for_slot_def slot_count_def)
next
  case (Cons d ds)
  then have wf: "well_formed d" and wfs: "list_all well_formed ds"
    by simp_all
  let ?i = "tcd_index d"
  let ?data1 = "(ensure_slots data ?i)[nat ?i := upd d (get_slot data (nat ?i))]"
  have i: "0 \<le> ?i" using wf by (simp add: well_formed_def)
  have len: "max (length ?data1) (slot_count ds) = max (length data) (slot_count (d # ds))"
    by (simp add: length_ensure_slots slot_count_Cons max.assoc)
  have step: "on_tc_deltas data (d # ds) = on_tc_deltas ?data1 ds"
    by (simp add: on_tc_delta_wf [OF wf])
  have slots: "foldl (\<lambda>s d. upd d s) (get_slot ?data1 j) (for_slot ds j) =
      foldl (\<lambda>s d. upd d s) (get_slot data j) (for_slot (d # ds) j)" for j
    using i by (auto simp: get_slot_after for_slot_Cons)
  show ?case
    unfolding step Cons.IH [OF wfs] len slots ..
qed


lemma upd_arguments: "slot_arguments (foldl (\<lambda>s d. upd d s) s ds) = slot_arguments s @ concat (map delta_fragment ds)"
  by (induction ds arbitrary: s) (auto simp: upd_def add_arguments_def set_name_def set_id_def)

lemma last_value_Nil: "last_value [] = None"
  by (simp add: last_value_def)

lemma last_value_Cons:
  "last_value (x # xs) =
     (case last_value xs of None \<Rightarrow> (if truthy x then x else None) | Some y \<Rightarrow> Some y)"
proof (cases "rev (filter truthy xs)")
  case Nil
  then show ?thesis by (simp add: last_value_def)
next
  case (Cons y ys)
  then have "y \<in> set (filter truthy xs)"
    by (metis list.set_intros(1) set_rev)
  then have "truthy y" by simp
  then obtain v where "y = Some v" by (cases y) simp_all
  with Cons show ?thesis by (simp add: last_value_def)
qed

lemma upd_id: "slot_id (foldl (\<lambda>s d. upd d s) s ds) =
   (case last_value (map tcd_id ds) of None \<Rightarrow> slot_id s | Some x \<Rightarrow> Some x)"
proof (induction ds arbitrary: s)
  case Nil
  show ?case by (simp add: last_value_Nil)
next
  case (Cons d ds)
  show ?case
    by (simp add: Cons.IH last_value_Cons)
       (auto simp: upd_def add_arguments_def set_name_def set_id_def split: option.splits)
qed

lemma upd_name: "slot_name (foldl (\<lambda>s d. upd d s) s ds) =
   (case last_value (map delta_name ds) of None \<Rightarrow> slot_name s | Some x \<Rightarrow> x)"
proof (induction ds arbitrary: s)
  case Nil
  show ?case by (simp add: last_value_Nil)
next
  case (Cons d ds)
  show ?case
    by (simp add: Cons.IH last_value_Cons del: delta_name.simps delta_fragment.simps)
       (auto simp: upd_def add_arguments_def set_name_def set_id_def split: option.splits simp del: delta_name.simps delta_fragment.simps)
qed

lemma last_value_cases: "last_value xs = None \<or> truthy (last_value xs)"
  by (induction xs) (auto simp: last_value_Nil last_value_Cons split: option.splits)

lemma last_value_truthy: "truthy (last_value xs) = list_ex truthy xs"
proof (induction xs)
  case Nil
  show ?case by (simp add: last_value_Nil)
next
  case (Cons x xs)
  show ?case
    using Cons.IH last_value_cases [of xs]
    by (auto simp: last_value_Cons split: option.splits)
qed

lemma on_chunk_data:
  assumes "on_tc_deltas (tool_calls_data a) (chunk_tc_deltas ch) = Inr data"
  shows "\<exists>a1. on_chunk a ch = Inr a1 \<and> tool_calls_data a1 = data"
proof (cases ch)
  case Nil
  with assms show ?thesis by (simp add: on_chunk_def chunk_tc_deltas_def)
next
  case (Cons c cs)
  with assms show ?thesis
    by (cases "truthy (d_role (c_delta c))") (simp_all add: on_chunk_def chunk_tc_deltas_def Let_def)
qed

lemma on_tc_deltas_append:
  "on_tc_deltas data (xs @ ys) =
     (case on_tc_deltas data xs of Inl e \<Rightarrow> Inl e | Inr data1 \<Rightarrow> on_tc_deltas data1 ys)"
  by (induction xs arbitrary: data) (auto split: sum.splits)

lemma on_chunks_data:
  "list_all well_formed (stream_tc_deltas chs) \<Longrightarrow>
   \<exists>a1. on_chunks a chs = Inr a1 \<and>
      on_tc_deltas (tool_calls_data a) (stream_tc_deltas chs) = Inr (tool_calls_data a1)"
proof (induction chs arbitrary: a)
  case Nil
  show ?case by (simp add: stream_tc_deltas_def)
next
  case (Cons ch chs)
  then have wf1: "list_all well_formed (chunk_tc_deltas ch)"
    and wf2: "list_all well_formed (stream_tc_deltas chs)"
    by (simp_all add: stream_tc_deltas_def)
  obtain data1 where d1: "on_tc_deltas (tool_calls_data a) (chunk_tc_deltas ch) = Inr data1"
    using on_tc_deltas_wf [OF wf1] by blast
  then obtain a1 where a1: "on_chunk a ch = Inr a1" and t1: "tool_calls_data a1 = data1"
    using on_chunk_data by blast
  from Cons.IH [OF wf2, of a1] obtain a2 where
    "on_chunks a1 chs = Inr a2"
    "on_tc_deltas (tool_calls_data a1) (stream_tc_deltas chs) = Inr (tool_calls_data a2)"
    by blast
  then show ?case
    using a1 t1 d1
    by (simp add: stream_tc_deltas_def on_tc_deltas_append)
qed


lemma slot_after_deltas:
  "to_tool_call (foldl (\<lambda>s d. upd d s) empty_slot (for_slot ds j)) = delivered_call ds j"
proof -
  have "slot_id (foldl (\<lambda>s d. upd d s) empty_slot (for_slot ds j)) =
      last_value (map tcd_id (for_slot ds j))"
    by (simp add: upd_id empty_slot_def split: option.splits)
  then show ?thesis
    by (simp add: to_tool_call_def delivered_call_def upd_name upd_arguments fragments_def
        empty_slot_def del: delta_name.simps delta_fragment.simps split: option.splits)
qed

lemma slot_after_deltas_id:
  "truthy (slot_id (foldl (\<lambda>s d. upd d s) empty_slot (for_slot ds j))) = id_assigned ds j"
proof -
  have "slot_id (foldl (\<lambda>s d. upd d s) empty_slot (for_slot ds j)) =
      last_value (map tcd_id (for_slot ds j))"
    by (simp add: upd_id empty_slot_def split: option.splits)
  then show ?thesis
    by (simp add: last_value_truthy id_assigned_def list_ex_iff)
qed

subsection \<open>The finalized message\<close>

lemma converted_tool_calls:
  "m_tool_calls (convert_message_for_api (ObjectMessage msg)) =
     (if calls_of msg = [] then None else Some (calls_of msg))"
  by (simp add: calls_of_def split: option.splits)

text \<open>
  C1. For every stream whose tool-call deltas are well formed, the accumulation returns,
  and the tool calls of the reconstructed message are exactly the calls of the slots that
  some delta gave a non-empty id, in the order of their indices, each with the
  concatenation of all fragments the stream delivered to its slot, in arrival order. A
  slot that got fragments and never an id is not among them. No assumption is needed on
  when a slot gets its id.
\<close>

theorem finalized_tool_calls:
  assumes "list_all well_formed (stream_tc_deltas chs)"
  shows "\<exists>a. accumulate chs = Inr a \<and>
     calls_of (ReconstructedMessage a) = surviving_calls (stream_tc_deltas chs) \<and>
     m_tool_calls (convert_message_for_api (ObjectMessage (ReconstructedMessage a))) =
       (if surviving_calls (stream_tc_deltas chs) = [] then None
        else Some (surviving_calls (stream_tc_deltas chs)))"
proof -
  let ?ds = "stream_tc_deltas chs"
  let ?f = "\<lambda>j. foldl (\<lambda>s d. upd d s) empty_slot (for_slot ?ds j)"
  from on_chunks_data [OF assms, of initial_acc] obtain a where
    a: "accumulate chs = Inr a"
    and "on_tc_deltas [] ?ds = Inr (tool_calls_data a)"
    by (auto simp: accumulate_def initial_acc_def)
  then have data: "tool_calls_data a = map ?f [0..<slot_count ?ds]"
    by (simp add: on_tc_deltas_wf [OF assms] get_slot_def)
  have "map to_tool_call (filter (\<lambda>tc. truthy (slot_id tc)) (tool_calls_data a)) =
      surviving_calls ?ds"
    unfolding data surviving_calls_def
    by (simp add: filter_map comp_def slot_after_deltas slot_after_deltas_id)
  moreover have "tool_calls_data a = [] \<Longrightarrow> surviving_calls ?ds = []"
    using data by (simp add: surviving_calls_def)
  ultimately have "calls_of (ReconstructedMessage a) = surviving_calls ?ds"
    by (simp add: calls_of_def ReconstructedMessage_def)
  with a show ?thesis
    using converted_tool_calls [of "ReconstructedMessage a"] by simp
qed

lemma example_stream_well_formed: "list_all well_formed (stream_tc_deltas example_stream)"
  by (simp add: example_stream_def stream_tc_deltas_def chunk_tc_deltas_def tool_chunk_def
      well_formed_def)

lemma example_stream_calls:
  "surviving_calls (stream_tc_deltas example_stream) =
     [\<lparr>tc_id = ''call_1'', tc_name = ''write_file'', tc_arguments = ''{x:1}''\<rparr>,
      \<lparr>tc_id = ''call_2'', tc_name = ''read_file'', tc_arguments = []\<rparr>]"
  by code_simp

theorem finalized_tool_calls_witness:
  "list_all well_formed (stream_tc_deltas example_stream) \<and>
   (\<exists>a. accumulate example_stream = Inr a \<and>
      calls_of (ReconstructedMessage a) =
        [\<lparr>tc_id = ''call_1'', tc_name = ''write_file'', tc_arguments = ''{x:1}''\<rparr>,
         \<lparr>tc_id = ''call_2'', tc_name = ''read_file'', tc_arguments = []\<rparr>] \<and>
      m_tool_calls (convert_message_for_api (ObjectMessage (ReconstructedMessage a))) =
        Some [\<lparr>tc_id = ''call_1'', tc_name = ''write_file'', tc_arguments = ''{x:1}''\<rparr>,
              \<lparr>tc_id = ''call_2'', tc_name = ''read_file'', tc_arguments = []\<rparr>])"
  using finalized_tool_calls [OF example_stream_well_formed] example_stream_well_formed
  unfolding example_stream_calls
  by simp

subsection \<open>Ids and names during the accumulation\<close>

text \<open>
  C3, as stated, fails: a later non-empty id or name replaces the one a slot holds. Two
  deltas for slot 0 with the ids \<open>call_a\<close> and \<open>call_b\<close> leave the slot with the id and
  the name of the second one, not with the first non-empty values.
\<close>

theorem first_value_counterexample:
  "on_tc_deltas [] renaming_deltas =
     Inr [\<lparr>slot_id = Some ''call_b'', slot_name = ''read_file'', slot_arguments = ''{}'',
           chars_received = 2\<rparr>] \<and>
   first_value (map tcd_id (for_slot renaming_deltas 0)) = Some ''call_a'' \<and>
   first_value (map delta_name (for_slot renaming_deltas 0)) = Some ''write_file''"
  by code_simp

text \<open>
  C3, amended. A well-formed delta is accumulated without an exception; the array then
  reaches to the delta's index; in the slot the delta addresses, a non-empty id replaces
  the id held and an empty or absent one leaves it, the same holds for the name, and the
  argument string is the one held followed by the delta's fragment; every other slot is
  as before.
\<close>

theorem on_tc_delta_latest_value:
  assumes "well_formed d"
  shows "\<exists>data1. on_tc_delta data d = Inr data1 \<and>
     length data1 = max (length data) (nat (tcd_index d) + 1) \<and>
     (\<forall>j<length data1.
        if int j = tcd_index d
        then slot_id (data1 ! j) =
               (if truthy (tcd_id d) then tcd_id d else slot_id (get_slot data j)) \<and>
             slot_name (data1 ! j) =
               (if truthy (delta_name d) then the (delta_name d) else slot_name (get_slot data j)) \<and>
             slot_arguments (data1 ! j) = slot_arguments (get_slot data j) @ delta_fragment d
        else data1 ! j = get_slot data j)"
proof -
  let ?i = "tcd_index d"
  let ?old = "ensure_slots data ?i"
  let ?data1 = "?old[nat ?i := upd d (get_slot data (nat ?i))]"
  from assms have i: "0 \<le> ?i" by (simp add: well_formed_def)
  have len: "length ?data1 = max (length data) (nat ?i + 1)"
    using i by (simp add: length_ensure_slots nat_add_distrib)
  have fields: "slot_id (upd d s) = (if truthy (tcd_id d) then tcd_id d else slot_id s) \<and>
      slot_name (upd d s) = (if truthy (delta_name d) then the (delta_name d) else slot_name s) \<and>
      slot_arguments (upd d s) = slot_arguments s @ delta_fragment d" for s
    by (simp add: upd_def add_arguments_def set_name_def set_id_def
        del: delta_name.simps delta_fragment.simps)
  have "if int j = ?i
        then slot_id (?data1 ! j) =
               (if truthy (tcd_id d) then tcd_id d else slot_id (get_slot data j)) \<and>
             slot_name (?data1 ! j) =
               (if truthy (delta_name d) then the (delta_name d) else slot_name (get_slot data j)) \<and>
             slot_arguments (?data1 ! j) = slot_arguments (get_slot data j) @ delta_fragment d
        else ?data1 ! j = get_slot data j" if "j < length ?data1" for j
  proof (cases "int j = ?i")
    case True
    then have j: "j = nat ?i" by simp
    have "?data1 ! j = upd d (get_slot data j)"
      using that unfolding j by simp
    with True show ?thesis by (simp add: fields del: delta_name.simps delta_fragment.simps)
  next
    case False
    then have "j \<noteq> nat ?i" using i by auto
    then have "?data1 ! j = ?old ! j" by simp
    also have "\<dots> = get_slot data j"
      using that by (simp add: nth_ensure_slots)
    finally show ?thesis using False by simp
  qed
  with len on_tc_delta_wf [OF assms, of data] show ?thesis by blast
qed

theorem on_tc_delta_latest_value_witness:
  "well_formed (renaming_deltas ! 1) \<and>
   (\<exists>data1. on_tc_delta [\<lparr>slot_id = Some ''call_a'', slot_name = ''write_file'',
                               slot_arguments = ''{'', chars_received = 1\<rparr>]
                (renaming_deltas ! 1) = Inr data1 \<and>
      length data1 = 1 \<and>
      slot_id (data1 ! 0) = Some ''call_b'' \<and>
      slot_name (data1 ! 0) = ''read_file'' \<and>
      slot_arguments (data1 ! 0) = ''{}'')"
proof -
  let ?d = "renaming_deltas ! 1"
  let ?data = "[\<lparr>slot_id = Some ''call_a'', slot_name = ''write_file'',
                  slot_arguments = ''{'', chars_received = 1\<rparr>]"
  have wf: "well_formed ?d"
    by (simp add: renaming_deltas_def well_formed_def)
  from on_tc_delta_latest_value [OF wf, of ?data] obtain data1 where
    r: "on_tc_delta ?data ?d = Inr data1"
    and l: "length data1 = max (length ?data) (nat (tcd_index ?d) + 1)"
    and s: "\<forall>j<length data1.
        if int j = tcd_index ?d
        then slot_id (data1 ! j) =
               (if truthy (tcd_id ?d) then tcd_id ?d else slot_id (get_slot ?data j)) \<and>
             slot_name (data1 ! j) =
               (if truthy (delta_name ?d) then the (delta_name ?d) else slot_name (get_slot ?data j)) \<and>
             slot_arguments (data1 ! j) = slot_arguments (get_slot ?data j) @ delta_fragment ?d
        else data1 ! j = get_slot ?data j"
    by blast
  from l have l1: "length data1 = 1"
    by (simp add: renaming_deltas_def)
  with s have "slot_id (data1 ! 0) = Some ''call_b'' \<and> slot_name (data1 ! 0) = ''read_file'' \<and>
      slot_arguments (data1 ! 0) = ''{}''"
    by (simp add: renaming_deltas_def get_slot_def)
  with wf r l1 show ?thesis by blast
qed

section \<open>Properties of the dispatch\<close>

subsection \<open>A name that is not registered\<close>

text \<open>
  For a tool call whose name is not in the registry and whose arguments
  \<^verbatim>\<open>json.loads\<close> parses or rejects with \<^verbatim>\<open>JSONDecodeError\<close>, the dispatch returns, the
  history grows by exactly one tool message that answers the call's id, its content is
  \<^verbatim>\<open>Error: Unknown tool '<name>'\<close>, which is not empty, and the dispatch goes on with the
  calls that follow.
\<close>

lemma unknown_tool_dispatch:
  assumes "tool_map env (tc_name tool_call) = None"
    and "parse_args env (tc_arguments tool_call) = Inr args"
  shows "dispatch env messages tool_call w =
       (Returns (messages @ [tool_message tool_call (unknown_tool (tc_name tool_call))]), w) \<and>
     m_content (tool_message tool_call (unknown_tool (tc_name tool_call))) =
       Some (''Error: Unknown tool '' @ [CHR 0x27] @ tc_name tool_call @ [CHR 0x27]) \<and>
     unknown_tool (tc_name tool_call) \<noteq> [] \<and>
     dispatch_all env messages (tool_call # rest) w =
       dispatch_all env (messages @ [tool_message tool_call (unknown_tool (tc_name tool_call))]) rest w"
  using assms
  by (simp add: dispatch_def call_tool_def Let_def tool_message_def unknown_tool_def)

text \<open>
  C5 says that the dispatch of a call with an unregistered name always appends the
  message \<^verbatim>\<open>Error: Unknown tool '<name>'\<close> and never raises. The code does not keep that:
  \<^verbatim>\<open>json.loads\<close> of line 440 runs before the lookup of line 448, and line 441 catches
  \<^verbatim>\<open>json.JSONDecodeError\<close> only. For the unregistered name \<open>list_files\<close> and an
  argument string of 2000 opening brackets, the \<^verbatim>\<open>RecursionError\<close> leaves the
  dispatch, the handler of line 504 ends the iteration, and the history ends with the
  assistant message that carries the call: no tool message answers it.
\<close>

theorem unknown_tool_deep_arguments:
  "tool_map (example_env low_estimate saving_compress (tool_stream ''list_files'' deep_arguments))
     ''list_files'' = None \<and>
   dispatch (example_env low_estimate saving_compress (tool_stream ''list_files'' deep_arguments))
     (initial_messages ''sys'' ''go'' False)
     \<lparr>tc_id = ''call_1'', tc_name = ''list_files'', tc_arguments = deep_arguments\<rparr> initial_world =
     (Raises ''maximum recursion depth exceeded'', initial_world) \<and>
   iteration_body
     (example_env low_estimate saving_compress (tool_stream ''list_files'' deep_arguments)) 1
     (initial_messages ''sys'' ''go'' False) initial_world =
     (Proceed,
      [plain_message ''system'' ''sys'', plain_message ''user'' ''go'',
       \<lparr>m_role = ''assistant'', m_content = None, m_reasoning_content = None,
        m_tool_calls =
          Some [\<lparr>tc_id = ''call_1'', tc_name = ''list_files'', tc_arguments = deep_arguments\<rparr>],
        m_tool_call_id = None, m_name = None\<rparr>],
      \<lparr>model_calls = 1, compressions = []\<rparr>)"
  by code_simp

subsection \<open>Arguments that do not parse\<close>

text \<open>
  When \<^verbatim>\<open>json.loads\<close> raises \<^verbatim>\<open>JSONDecodeError\<close> on the argument string, the
  arguments are the empty object, and the dispatch of the call is the dispatch of the same
  call with an argument string that parses to the empty object: the same result, the same
  history, the same effect on the world.
\<close>

lemma unparsable_arguments_as_empty:
  assumes "json_loads env bad = JSONDecodeError" and "json_loads env good = Loaded (JObject [])"
  shows "parse_args env bad = Inr (JObject []) \<and>
     dispatch env messages (tool_call\<lparr>tc_arguments := bad\<rparr>) w =
       dispatch env messages (tool_call\<lparr>tc_arguments := good\<rparr>) w"
proof -
  have p: "parse_args env bad = Inr (JObject [])" "parse_args env good = Inr (JObject [])"
    using assms by (simp_all add: parse_args_def)
  have c: "call_tool env messages (tool_call\<lparr>tc_arguments := bad\<rparr>) w =
      call_tool env messages (tool_call\<lparr>tc_arguments := good\<rparr>) w"
    by (simp add: call_tool_def Let_def p)
  have m: "tool_message (tool_call\<lparr>tc_arguments := x\<rparr>) r = tool_message tool_call r" for x r
    by (simp add: tool_message_def)
  show ?thesis
    unfolding dispatch_def c m using p(1) by simp
qed

text \<open>
  C6 says that an argument string that fails to parse is dispatched as the empty object
  is. The code does not keep that for a failure other than \<^verbatim>\<open>JSONDecodeError\<close>: on
  2000 opening brackets \<^verbatim>\<open>json.loads\<close> raises \<^verbatim>\<open>RecursionError\<close>, which line 441
  does not catch; the registered tool \<open>write_file\<close> is not called and the dispatch
  raises, while with the arguments \<^verbatim>\<open>{}\<close> the tool is called and its result appended.
\<close>

theorem deep_arguments_not_absorbed:
  "json_loads (example_env low_estimate saving_compress haiku_stream) deep_arguments =
     LoadError ''maximum recursion depth exceeded'' \<and>
   json_loads (example_env low_estimate saving_compress haiku_stream) ''{}'' = Loaded (JObject []) \<and>
   dispatch (example_env low_estimate saving_compress haiku_stream) []
     \<lparr>tc_id = ''call_1'', tc_name = ''write_file'', tc_arguments = deep_arguments\<rparr> initial_world =
     (Raises ''maximum recursion depth exceeded'', initial_world) \<and>
   dispatch (example_env low_estimate saving_compress haiku_stream) []
     \<lparr>tc_id = ''call_1'', tc_name = ''write_file'', tc_arguments = ''{}''\<rparr> initial_world =
     (Returns [\<lparr>m_role = ''tool'', m_content = Some ''File written'',
                m_reasoning_content = None, m_tool_calls = None,
                m_tool_call_id = Some ''call_1'', m_name = Some ''write_file''\<rparr>], initial_world)"
  by code_simp

subsection \<open>One tool message for a call\<close>






section \<open>Properties of the loop\<close>

subsection \<open>An error of the model call\<close>

text \<open>The token check leaves the history as it is, or replaces it by what the compressor
  returned for it.\<close>

lemma check_tokens_store:
  assumes "check_tokens env messages w = (Some (token_count, messages1), w1)"
  shows "messages1 = messages \<or>
     (\<exists>w2 r w3. compress_context_impl env messages 10 w2 = (Returns r, w3) \<and>
        compressed_messages r = Some messages1)"
  using assms
  by (auto simp: check_tokens_def split: prod.splits outcome.splits option.splits if_splits)

text \<open>
  C8. When the token check and the backup of an iteration are passed and the model call
  ends with an exception (raised by the call or between two chunks of its stream), the
  iteration ends with the history that was handed to the model call: nothing is appended.
  That history is the one the iteration began with, unless the token check of the same
  iteration replaced it by the compressor's. The loop goes on with the iterations that
  remain.
\<close>

theorem stream_error_abandons_iteration:
  assumes "check_tokens env messages w = (Some (token_count, messages1), w1)"
    and "auto_backup env iteration messages1 w1 = (True, w2)"
    and "create env messages1 w2 = ((chunks, Raises e), w3)"
  shows "iteration_body env iteration messages w = (Proceed, messages1, w3) \<and>
     for_loop env (iteration # rest) last_iteration messages w =
       for_loop env rest iteration messages1 w3 \<and>
     (messages1 = messages \<or>
      (\<exists>wa r wb. compress_context_impl env messages 10 wa = (Returns r, wb) \<and>
         compressed_messages r = Some messages1))"
proof -
  have "try_block env messages1 w2 = (Raised e, messages1, w3) \<or>
      (\<exists>x. try_block env messages1 w2 = (Raised (error_text x), messages1, w3))"
    using assms(3) by (cases "accumulate chunks") (auto simp: try_block_def)
  then have "model_phase env iteration messages1 w1 = (Proceed, messages1, w3)"
    using assms(2) by (auto simp: model_phase_def)
  then have "iteration_body env iteration messages w = (Proceed, messages1, w3)"
    using assms(1) by (simp add: iteration_body_def)
  then show ?thesis
    using check_tokens_store [OF assms(1)] by simp
qed

theorem stream_error_abandons_iteration_witness:
  "check_tokens (example_env low_estimate saving_compress failing_stream)
      (initial_messages ''sys'' ''go'' False) initial_world =
     (Some (1000, initial_messages ''sys'' ''go'' False), initial_world) \<and>
   auto_backup (example_env low_estimate saving_compress failing_stream) 1
      (initial_messages ''sys'' ''go'' False) initial_world = (True, initial_world) \<and>
   create (example_env low_estimate saving_compress failing_stream)
      (initial_messages ''sys'' ''go'' False) initial_world =
     (([], Raises ''Connection error''), called initial_world) \<and>
   iteration_body (example_env low_estimate saving_compress failing_stream) 1
      (initial_messages ''sys'' ''go'' False) initial_world =
     (Proceed, initial_messages ''sys'' ''go'' False, called initial_world) \<and>
   for_loop (example_env low_estimate saving_compress failing_stream) [1, 2] 0
      (initial_messages ''sys'' ''go'' False) initial_world =
     for_loop (example_env low_estimate saving_compress failing_stream) [2] 1
      (initial_messages ''sys'' ''go'' False) (called initial_world)"
proof -
  let ?env = "example_env low_estimate saving_compress failing_stream"
  let ?ms = "initial_messages ''sys'' ''go'' False"
  have c: "check_tokens ?env ?ms initial_world = (Some (1000, ?ms), initial_world)"
    by (simp add: check_tokens_def example_env_def low_estimate_def COMPRESSION_THRESHOLD_def)
  have b: "auto_backup ?env 1 ?ms initial_world = (True, initial_world)"
    by (simp add: auto_backup_def BACKUP_INTERVAL_def)
  have s: "create ?env ?ms initial_world = (([], Raises ''Connection error''), called initial_world)"
    by (simp add: example_env_def failing_stream_def)
  from stream_error_abandons_iteration [OF c b s, of "[2]" 0] c b s show ?thesis
    by simp
qed

subsection \<open>A message without tool calls\<close>

lemma accumulate_without_tool_calls:
  assumes "stream_tc_deltas chunks = []"
  shows "\<exists>a. accumulate chunks = Inr a \<and> tool_calls_data a = []"
proof -
  have "list_all well_formed (stream_tc_deltas chunks)"
    using assms by simp
  from on_chunks_data [OF this, of initial_acc] assms show ?thesis
    by (auto simp: accumulate_def initial_acc_def)
qed

lemma first_iteration: "[1..<MAX_ITERATIONS + 1] = 1 # [2..<MAX_ITERATIONS + 1]"
  by (simp add: MAX_ITERATIONS_def upt_conv_Cons)

text \<open>
  C4. When the token check and the backup of an iteration are passed, the stream ends
  normally and the reconstructed message has no tool call, the message is appended and the
  loop is left by its \<^verbatim>\<open>break\<close> in that same iteration. In particular, from the history
  of the system prompt and the user prompt, with a token estimate below the threshold and
  a stream that carries no tool-call delta, \<^verbatim>\<open>main\<close> returns after the first iteration
  with a history of length 3.
\<close>

theorem no_tool_calls_ends_loop:
  "(check_tokens env messages w = (Some (token_count, messages1), w1) \<and>
    auto_backup env iteration messages1 w1 = (True, w2) \<and>
    create env messages1 w2 = ((chunks, Returns ()), w3) \<and>
    accumulate chunks = Inr a \<and>
    no_tool_calls (ReconstructedMessage a) \<longrightarrow>
      for_loop env (iteration # rest) last_iteration messages w =
        (Break, iteration,
         messages1 @ [convert_message_for_api (ObjectMessage (ReconstructedMessage a))], w3)) \<and>
   (estimate_token_count env (initial_messages system_prompt user_prompt False) v =
      (Returns n, v1) \<and>
    n < COMPRESSION_THRESHOLD \<and>
    create env (initial_messages system_prompt user_prompt False) v1 = ((stream, Returns ()), v2) \<and>
    stream_tc_deltas stream = [] \<longrightarrow>
      (\<exists>m. main env system_prompt user_prompt False v =
         (Returned, initial_messages system_prompt user_prompt False @ [m], v2) \<and>
         m_tool_calls m = None \<and>
         length (initial_messages system_prompt user_prompt False @ [m]) = 3))"
proof (intro conjI impI)
  assume h: "check_tokens env messages w = (Some (token_count, messages1), w1) \<and>
    auto_backup env iteration messages1 w1 = (True, w2) \<and>
    create env messages1 w2 = ((chunks, Returns ()), w3) \<and>
    accumulate chunks = Inr a \<and>
    no_tool_calls (ReconstructedMessage a)"
  then have "try_block env messages1 w2 =
      (Broke, messages1 @ [convert_message_for_api (ObjectMessage (ReconstructedMessage a))], w3)"
    by (simp add: try_block_def Let_def)
  with h have "iteration_body env iteration messages w =
      (Break, messages1 @ [convert_message_for_api (ObjectMessage (ReconstructedMessage a))], w3)"
    by (simp add: iteration_body_def model_phase_def)
  then show "for_loop env (iteration # rest) last_iteration messages w =
        (Break, iteration,
         messages1 @ [convert_message_for_api (ObjectMessage (ReconstructedMessage a))], w3)"
    by simp
next
  let ?ms = "initial_messages system_prompt user_prompt False"
  assume h: "estimate_token_count env ?ms v = (Returns n, v1) \<and>
    n < COMPRESSION_THRESHOLD \<and>
    create env ?ms v1 = ((stream, Returns ()), v2) \<and>
    stream_tc_deltas stream = []"
  from h accumulate_without_tool_calls obtain a where
    a: "accumulate stream = Inr a" and d: "tool_calls_data a = []"
    by blast
  define m where "m = convert_message_for_api (ObjectMessage (ReconstructedMessage a))"
  have n: "no_tool_calls (ReconstructedMessage a)" and t: "m_tool_calls m = None"
    using d by (simp_all add: m_def no_tool_calls_def ReconstructedMessage_def)
  have c: "check_tokens env ?ms v = (Some (n, ?ms), v1)"
    using h by (simp add: check_tokens_def)
  have b: "auto_backup env 1 ?ms v1 = (True, v1)"
    by (simp add: auto_backup_def BACKUP_INTERVAL_def)
  have "try_block env ?ms v1 = (Broke, ?ms @ [m], v2)"
    using h a n unfolding m_def by (simp add: try_block_def Let_def del: convert_message_for_api.simps)
  with c b have i: "iteration_body env 1 ?ms v = (Break, ?ms @ [m], v2)"
    by (simp add: iteration_body_def model_phase_def)
  have "for_loop env [1..<MAX_ITERATIONS + 1] 0 ?ms v = (Break, 1, ?ms @ [m], v2)"
    unfolding first_iteration for_loop.simps i by simp
  then have "main env system_prompt user_prompt False v = (Returned, ?ms @ [m], v2)"
    unfolding main_def by (simp add: after_loop_def MAX_ITERATIONS_def)
  moreover have "length (?ms @ [m]) = 3"
    by (simp add: initial_messages_def)
  ultimately show "\<exists>m. main env system_prompt user_prompt False v = (Returned, ?ms @ [m], v2) \<and>
         m_tool_calls m = None \<and> length (?ms @ [m]) = 3"
    using t by blast
qed


lemma haiku_accumulated:
  "accumulate [content_chunk ''An old silent pond''] =
     Inr \<lparr>reasoning_content = [], content_text = ''An old silent pond'', tool_calls_data = [],
          role = Some ''assistant'', finish_reason = None\<rparr>"
  by (simp add: accumulate_def initial_acc_def on_chunk_def content_chunk_def Let_def append_opt_def)

theorem no_tool_calls_ends_loop_witness:
  "estimate_token_count (example_env low_estimate saving_compress haiku_stream)
      (initial_messages ''sys'' ''write a haiku'' False) initial_world =
     (Returns 1000, initial_world) \<and>
   1000 < COMPRESSION_THRESHOLD \<and>
   create (example_env low_estimate saving_compress haiku_stream)
      (initial_messages ''sys'' ''write a haiku'' False) initial_world =
     (([content_chunk ''An old silent pond''], Returns ()), called initial_world) \<and>
   stream_tc_deltas [content_chunk ''An old silent pond''] = [] \<and>
   for_loop (example_env low_estimate saving_compress haiku_stream) [1, 2] 0
      (initial_messages ''sys'' ''write a haiku'' False) initial_world =
     (Break, 1,
      initial_messages ''sys'' ''write a haiku'' False @
        [plain_message ''assistant'' ''An old silent pond''],
      called initial_world) \<and>
   (\<exists>m. main (example_env low_estimate saving_compress haiku_stream) ''sys'' ''write a haiku''
           False initial_world =
         (Returned, initial_messages ''sys'' ''write a haiku'' False @ [m], called initial_world) \<and>
        m_tool_calls m = None \<and>
        length (initial_messages ''sys'' ''write a haiku'' False @ [m]) = 3)"
proof -
  let ?env = "example_env low_estimate saving_compress haiku_stream"
  let ?ms = "initial_messages ''sys'' ''write a haiku'' False"
  let ?a = "\<lparr>reasoning_content = [], content_text = ''An old silent pond'', tool_calls_data = [],
          role = Some ''assistant'', finish_reason = None\<rparr>"
  have e: "estimate_token_count ?env ?ms initial_world = (Returns 1000, initial_world)"
    by (simp add: example_env_def low_estimate_def)
  have l: "1000 < COMPRESSION_THRESHOLD"
    by (simp add: COMPRESSION_THRESHOLD_def)
  have s: "create ?env ?ms initial_world =
      (([content_chunk ''An old silent pond''], Returns ()), called initial_world)"
    by (simp add: example_env_def haiku_stream_def)
  have d: "stream_tc_deltas [content_chunk ''An old silent pond''] = []"
    by (simp add: stream_tc_deltas_def chunk_tc_deltas_def content_chunk_def)
  have c: "check_tokens ?env ?ms initial_world = (Some (1000, ?ms), initial_world)"
    using e l by (simp add: check_tokens_def)
  have b: "auto_backup ?env 1 ?ms initial_world = (True, initial_world)"
    by (simp add: auto_backup_def BACKUP_INTERVAL_def)
  have n: "no_tool_calls (ReconstructedMessage ?a)"
    by (simp add: no_tool_calls_def ReconstructedMessage_def)
  have m: "convert_message_for_api (ObjectMessage (ReconstructedMessage ?a)) =
      plain_message ''assistant'' ''An old silent pond''"
    by (simp add: ReconstructedMessage_def plain_message_def)
  note t = no_tool_calls_ends_loop [of ?env ?ms initial_world 1000 ?ms initial_world 1
      initial_world "[content_chunk ''An old silent pond'']" "called initial_world" ?a "[2]" 0
      "''sys''" "''write a haiku''" initial_world 1000 initial_world
      "[content_chunk ''An old silent pond'']" "called initial_world"]
  from t c b s haiku_accumulated n have
    "for_loop ?env [1, 2] 0 ?ms initial_world =
       (Break, 1, ?ms @ [plain_message ''assistant'' ''An old silent pond''], called initial_world)"
    unfolding m by blast
  moreover from t e l s d have
    "\<exists>m. main ?env ''sys'' ''write a haiku'' False initial_world =
         (Returned, ?ms @ [m], called initial_world) \<and>
        m_tool_calls m = None \<and> length (?ms @ [m]) = 3"
    by blast
  ultimately show ?thesis
    using e l s d by blast
qed

subsection \<open>A failure of the token estimation\<close>

text \<open>
  C7, as stated, fails for the second estimation of an iteration (line 257), which the
  same handler covers: the first estimation returns 190000, the compressor replaces the
  history, and the estimation of the new history raises. The token count is then 0, but
  the compression of this iteration was not skipped: the compressor was called with
  \<^verbatim>\<open>keep_recent=10\<close> and the history is the compressed one.
\<close>

theorem estimation_failure_counterexample:
  "estimate_token_count (example_env unsteady_estimate shrinking_compress haiku_stream)
      [plain_message ''user'' ''summary''] \<lparr>model_calls = 0, compressions = [10]\<rparr> =
     (Raises ''timed out'', \<lparr>model_calls = 0, compressions = [10]\<rparr>) \<and>
   check_tokens (example_env unsteady_estimate shrinking_compress haiku_stream)
      (initial_messages ''sys'' ''go'' False) initial_world =
     (Some (0, [plain_message ''user'' ''summary'']), \<lparr>model_calls = 0, compressions = [10]\<rparr>)"
  by code_simp

text \<open>
  C7, amended. When the first estimation of an iteration raises, the token count is 0,
  the compressor is not called, the history is unchanged, and the iteration goes on with
  the backup and the model call. When the estimation that follows a compression raises,
  the token count is 0 as well, the compressed history is kept, and the iteration goes on
  in the same way. In neither case does the loop end.
\<close>

theorem estimation_failure_continues:
  "(estimate_token_count env messages w = (Raises e, w1) \<longrightarrow>
      check_tokens env messages w = (Some (0, messages), w1) \<and>
      iteration_body env iteration messages w = model_phase env iteration messages w1) \<and>
   (estimate_token_count env messages w = (Returns n, w1) \<and>
    COMPRESSION_THRESHOLD \<le> n \<and>
    compress_context_impl env messages 10 w1 = (Returns r, w2) \<and>
    compressed_messages r = Some messages1 \<and>
    cr_message r = Some txt \<and>
    estimate_token_count env messages1 w2 = (Raises e, w3) \<longrightarrow>
      check_tokens env messages w = (Some (0, messages1), w3) \<and>
      iteration_body env iteration messages w = model_phase env iteration messages1 w3)"
  by (simp add: check_tokens_def iteration_body_def)

theorem estimation_failure_continues_witness:
  "estimate_token_count (example_env unsteady_estimate shrinking_compress haiku_stream)
      [plain_message ''user'' ''only''] initial_world = (Raises ''timed out'', initial_world) \<and>
   check_tokens (example_env unsteady_estimate shrinking_compress haiku_stream)
      [plain_message ''user'' ''only''] initial_world =
     (Some (0, [plain_message ''user'' ''only'']), initial_world) \<and>
   iteration_body (example_env unsteady_estimate shrinking_compress haiku_stream) 1
      [plain_message ''user'' ''only''] initial_world =
     (Break, [plain_message ''user'' ''only'', plain_message ''assistant'' ''An old silent pond''],
      called initial_world) \<and>
   estimate_token_count (example_env unsteady_estimate shrinking_compress haiku_stream)
      (initial_messages ''sys'' ''go'' False) initial_world = (Returns 190000, initial_world) \<and>
   COMPRESSION_THRESHOLD \<le> 190000 \<and>
   check_tokens (example_env unsteady_estimate shrinking_compress haiku_stream)
      (initial_messages ''sys'' ''go'' False) initial_world =
     (Some (0, [plain_message ''user'' ''summary'']), \<lparr>model_calls = 0, compressions = [10]\<rparr>)"
proof -
  let ?env = "example_env unsteady_estimate shrinking_compress haiku_stream"
  let ?one = "[plain_message ''user'' ''only'']"
  let ?ms = "initial_messages ''sys'' ''go'' False"
  let ?w = "\<lparr>model_calls = 0, compressions = [10]\<rparr>"
  let ?r = "\<lparr>compressed_messages = Some [plain_message ''user'' ''summary''],
               cr_message = Some ''compressed'', tokens_saved = Some 100000,
               summary_file = Some ''summary.md''\<rparr>"
  have e1: "estimate_token_count ?env ?one initial_world = (Raises ''timed out'', initial_world)"
    by (simp add: example_env_def unsteady_estimate_def)
  have e2: "estimate_token_count ?env ?ms initial_world = (Returns 190000, initial_world)"
    by (simp add: example_env_def unsteady_estimate_def initial_messages_def)
  have t: "COMPRESSION_THRESHOLD \<le> 190000"
    by (simp add: COMPRESSION_THRESHOLD_def)
  have c: "compress_context_impl ?env ?ms 10 initial_world = (Returns ?r, ?w)"
    by (simp add: example_env_def shrinking_compress_def initial_world_def)
  have e3: "estimate_token_count ?env [plain_message ''user'' ''summary''] ?w =
      (Raises ''timed out'', ?w)"
    by (simp add: example_env_def unsteady_estimate_def)
  have p: "model_phase ?env 1 ?one initial_world =
     (Break, [plain_message ''user'' ''only'', plain_message ''assistant'' ''An old silent pond''],
      called initial_world)"
    by code_simp
  from estimation_failure_continues [of ?env ?one initial_world "''timed out''" initial_world 1]
    e1 p
  have a: "check_tokens ?env ?one initial_world = (Some (0, ?one), initial_world) \<and>
     iteration_body ?env 1 ?one initial_world =
       (Break, [plain_message ''user'' ''only'', plain_message ''assistant'' ''An old silent pond''],
        called initial_world)"
    by simp
  from estimation_failure_continues [of ?env ?ms initial_world "''timed out''" initial_world 1
      190000 ?r ?w "[plain_message ''user'' ''summary'']" "''compressed''" ?w]
    e2 t c e3
  have b: "check_tokens ?env ?ms initial_world = (Some (0, [plain_message ''user'' ''summary'']), ?w)"
    by simp
  from a b e1 e2 t show ?thesis by simp
qed

subsection \<open>A keyboard interrupt\<close>

text \<open>The \<^verbatim>\<open>try\<close> block ends with an interrupt when the stream or a tool call does.\<close>

lemma interrupted_stream_try:
  assumes "create env messages w = ((chunks, KeyboardInterrupt), w1)"
    and "accumulate chunks = Inr a"
  shows "try_block env messages w = (Interrupted, messages, w1)"
  using assms by (simp add: try_block_def)

lemma interrupted_tool_try:
  assumes "create env messages w = ((chunks, Returns ()), w1)"
    and "accumulate chunks = Inr a"
    and "\<not> no_tool_calls (ReconstructedMessage a)"
    and "dispatch_all env (messages @ [convert_message_for_api (ObjectMessage (ReconstructedMessage a))])
           (calls_of (ReconstructedMessage a)) w1 = (KeyboardInterrupt, messages2, w2)"
  shows "try_block env messages w = (Interrupted, messages2, w2)"
  using assms by (simp add: try_block_def Let_def del: convert_message_for_api.simps)

text \<open>
  Inside the \<^verbatim>\<open>try\<close> block of lines 280 to 484 the interrupt is handled (lines 486 to
  502): when the token check and the backup of an iteration are passed and a keyboard
  interrupt is raised during the model call or the dispatch of the tool calls, the
  compressor is called once with the history reached and \<^verbatim>\<open>keep_recent\<close> equal to its
  length, whatever that call returns or raises is dropped, the loop is left and the
  process exits with code 0.
\<close>

lemma interrupt_in_try_block:
  assumes "check_tokens env messages w = (Some (token_count, messages1), w1)"
    and "auto_backup env iteration messages1 w1 = (True, w2)"
    and "try_block env messages1 w2 = (Interrupted, messages2, w3)"
  shows "for_loop env (iteration # rest) last_iteration messages w =
       (SysExit 0, iteration, messages2,
        snd (compress_context_impl env messages2 (length messages2) w3)) \<and>
     after_loop env (for_loop env (iteration # rest) last_iteration messages w) =
       (Exited 0, messages2, snd (compress_context_impl env messages2 (length messages2) w3))"
proof -
  have "on_interrupt env messages2 w3 =
      (SysExit 0, messages2, snd (compress_context_impl env messages2 (length messages2) w3))"
    by (simp add: on_interrupt_def split: prod.splits)
  with assms have "iteration_body env iteration messages w =
      (SysExit 0, messages2, snd (compress_context_impl env messages2 (length messages2) w3))"
    by (simp add: iteration_body_def model_phase_def)
  then show ?thesis
    by (simp add: after_loop_def)
qed

lemma interrupt_in_try_block_example:
  "check_tokens (example_env low_estimate saving_compress interrupted_stream)
      (initial_messages ''sys'' ''go'' False) initial_world =
     (Some (1000, initial_messages ''sys'' ''go'' False), initial_world) \<and>
   auto_backup (example_env low_estimate saving_compress interrupted_stream) 1
      (initial_messages ''sys'' ''go'' False) initial_world = (True, initial_world) \<and>
   try_block (example_env low_estimate saving_compress interrupted_stream)
      (initial_messages ''sys'' ''go'' False) initial_world =
     (Interrupted, initial_messages ''sys'' ''go'' False, called initial_world) \<and>
   for_loop (example_env low_estimate saving_compress interrupted_stream) [1, 2] 0
      (initial_messages ''sys'' ''go'' False) initial_world =
     (SysExit 0, 1, initial_messages ''sys'' ''go'' False, \<lparr>model_calls = 1, compressions = [2]\<rparr>) \<and>
   after_loop (example_env low_estimate saving_compress interrupted_stream)
      (for_loop (example_env low_estimate saving_compress interrupted_stream) [1, 2] 0
         (initial_messages ''sys'' ''go'' False) initial_world) =
     (Exited 0, initial_messages ''sys'' ''go'' False, \<lparr>model_calls = 1, compressions = [2]\<rparr>)"
proof -
  let ?env = "example_env low_estimate saving_compress interrupted_stream"
  let ?ms = "initial_messages ''sys'' ''go'' False"
  have c: "check_tokens ?env ?ms initial_world = (Some (1000, ?ms), initial_world)"
    by (simp add: check_tokens_def example_env_def low_estimate_def COMPRESSION_THRESHOLD_def)
  have b: "auto_backup ?env 1 ?ms initial_world = (True, initial_world)"
    by (simp add: auto_backup_def BACKUP_INTERVAL_def)
  have t: "try_block ?env ?ms initial_world = (Interrupted, ?ms, called initial_world)"
    by code_simp
  have s: "snd (compress_context_impl ?env ?ms (length ?ms) (called initial_world)) =
      \<lparr>model_calls = 1, compressions = [2]\<rparr>"
    by (simp add: example_env_def saving_compress_def initial_messages_def called_def
        initial_world_def)
  from interrupt_in_try_block [OF c b t, of "[2]" 0] c b t show ?thesis
    unfolding s by (simp add: after_loop_def del: for_loop.simps)
qed

text \<open>
  C9 says that a keyboard interrupt at any point of an iteration saves a snapshot and
  exits with code 0. The code does not keep that outside the \<^verbatim>\<open>try\<close> block of line
  280: the handlers of the token check (line 260) and of the backup (line 276) are
  \<^verbatim>\<open>except Exception\<close>, which \<^verbatim>\<open>KeyboardInterrupt\<close> passes, and no other handler
  encloses them. An interrupt during the token estimation of the first iteration, or
  during the backup of iteration 50, leaves \<^verbatim>\<open>main\<close> uncaught: the compressor is not
  called for a snapshot and \<^verbatim>\<open>sys.exit(0)\<close> is not reached. The same interrupt during
  the model call is handled: a snapshot with \<^verbatim>\<open>keep_recent\<close> 2, the length of the
  history, and exit code 0.
\<close>

theorem interrupt_outside_try:
  "main (example_env interrupted_estimate saving_compress haiku_stream) ''sys'' ''write a haiku''
     False initial_world =
     (Killed, initial_messages ''sys'' ''write a haiku'' False,
      \<lparr>model_calls = 0, compressions = []\<rparr>) \<and>
   iteration_body (example_env low_estimate interrupted_compress haiku_stream) 50
     (initial_messages ''sys'' ''write a haiku'' False) initial_world =
     (Propagated, initial_messages ''sys'' ''write a haiku'' False,
      \<lparr>model_calls = 0, compressions = []\<rparr>) \<and>
   main (example_env low_estimate saving_compress interrupted_stream) ''sys'' ''write a haiku''
     False initial_world =
     (Exited 0, initial_messages ''sys'' ''write a haiku'' False,
      \<lparr>model_calls = 1, compressions = [2]\<rparr>)"
  by code_simp

subsection \<open>A break in the last iteration\<close>

text \<open>
  C10. When the loop is left by its \<^verbatim>\<open>break\<close> in iteration \<open>MAX_ITERATIONS\<close>, the test
  \<^verbatim>\<open>iteration >= MAX_ITERATIONS\<close> of line 510 holds, so the compressor is called with the
  final history and \<^verbatim>\<open>keep_recent\<close> equal to its length, although the task was
  completed; \<^verbatim>\<open>main\<close> then returns, unless that call is interrupted.
\<close>

theorem break_at_cap_saves:
  assumes "for_loop env [1..<MAX_ITERATIONS + 1] 0
      (initial_messages system_prompt user_prompt is_recovery) w =
        (Break, MAX_ITERATIONS, messages, w1)"
  shows "snd (snd (main env system_prompt user_prompt is_recovery w)) =
       snd (compress_context_impl env messages (length messages) w1) \<and>
     fst (snd (main env system_prompt user_prompt is_recovery w)) = messages \<and>
     fst (main env system_prompt user_prompt is_recovery w) =
       (if fst (compress_context_impl env messages (length messages) w1) = KeyboardInterrupt
        then Killed else Returned)"
  using assms
  by (simp add: main_def after_loop_def split: prod.splits outcome.splits)

lemma late_loop:
  "for_loop (example_env low_estimate saving_compress late_haiku_stream) [1..<MAX_ITERATIONS + 1] 0
      (initial_messages ''sys'' ''write a haiku'' False) initial_world =
   (Break, MAX_ITERATIONS,
    initial_messages ''sys'' ''write a haiku'' False @
      [plain_message ''assistant'' ''An old silent pond''],
    \<lparr>model_calls = 300, compressions = [2, 2, 2, 2, 2, 2]\<rparr>)"
  by code_simp


theorem break_at_cap_saves_witness:
  "for_loop (example_env low_estimate saving_compress late_haiku_stream) [1..<MAX_ITERATIONS + 1] 0
      (initial_messages ''sys'' ''write a haiku'' False) initial_world =
     (Break, MAX_ITERATIONS,
      initial_messages ''sys'' ''write a haiku'' False @
        [plain_message ''assistant'' ''An old silent pond''],
      \<lparr>model_calls = 300, compressions = [2, 2, 2, 2, 2, 2]\<rparr>) \<and>
   main (example_env low_estimate saving_compress late_haiku_stream) ''sys'' ''write a haiku''
      False initial_world =
     (Returned,
      initial_messages ''sys'' ''write a haiku'' False @
        [plain_message ''assistant'' ''An old silent pond''],
      \<lparr>model_calls = 300, compressions = [3, 2, 2, 2, 2, 2, 2]\<rparr>)"
proof -
  let ?env = "example_env low_estimate saving_compress late_haiku_stream"
  let ?ms = "initial_messages ''sys'' ''write a haiku'' False @
        [plain_message ''assistant'' ''An old silent pond'']"
  let ?w = "\<lparr>model_calls = 300, compressions = [2, 2, 2, 2, 2, 2]\<rparr>"
  let ?main = "main ?env ''sys'' ''write a haiku'' False initial_world"
  have c: "compress_context_impl ?env ?ms (length ?ms) ?w =
      (Returns \<lparr>compressed_messages = None, cr_message = Some ''saved'',
                tokens_saved = Some 0, summary_file = Some ''summary.md''\<rparr>,
       \<lparr>model_calls = 300, compressions = [3, 2, 2, 2, 2, 2, 2]\<rparr>)"
    by (simp add: example_env_def saving_compress_def initial_messages_def)
  from break_at_cap_saves [OF late_loop] have
    "snd (snd ?main) = \<lparr>model_calls = 300, compressions = [3, 2, 2, 2, 2, 2, 2]\<rparr> \<and>
     fst (snd ?main) = ?ms \<and> fst ?main = Returned"
    unfolding c by simp
  then have "?main = (Returned, ?ms, \<lparr>model_calls = 300, compressions = [3, 2, 2, 2, 2, 2, 2]\<rparr>)"
    by (metis prod.collapse)
  with late_loop show ?thesis by blast
qed

end
